theory Spec2Isabelle
  imports Main "HOL-Library.AList"
begin

section \<open>JavaScript values, objects and errors\<close>

text \<open>
  The update request carries scalar values only: strings, numbers, booleans and null.
  The code never computes with a number (it only passes values on, and tests one value
  for truthiness), so numbers are modelled as integers.
\<close>

datatype jsval = JString string | JNumber int | JBoolean bool | JNull

text \<open>
  An object is the list of its own enumerable string-keyed properties, in the order in
  which the engine enumerates them. \<open>Object.keys\<close> and \<open>Object.values\<close> both follow that
  one order. The keys of an object are pairwise distinct.
\<close>

type_synonym object = "(string \<times> jsval) list"


definition Object_keys :: "object \<Rightarrow> string list" where
  "Object_keys obj = map fst obj"

definition Object_values :: "object \<Rightarrow> jsval list" where
  "Object_values obj = map snd obj"

text \<open>The property read \<open>obj[k]\<close>; \<open>None\<close> stands for \<open>undefined\<close>.\<close>

definition getProp :: "object \<Rightarrow> string \<Rightarrow> jsval option" where
  "getProp obj k = map_of obj k"

text \<open>
  The assignment \<open>obj[k] = v\<close>: an existing property keeps its place in the enumeration
  order, a new one goes to the end. \<open>delete obj[k]\<close> removes the property.
\<close>

definition setProp :: "object \<Rightarrow> string \<Rightarrow> jsval \<Rightarrow> object" where
  "setProp obj k v = AList.update k v obj"

definition deleteProp :: "object \<Rightarrow> string \<Rightarrow> object" where
  "deleteProp obj k = AList.delete k obj"

fun truthy :: "jsval \<Rightarrow> bool" where
  "truthy (JString s) = (s \<noteq> [])"
| "truthy (JNumber n) = (n \<noteq> 0)"
| "truthy (JBoolean b) = b"
| "truthy JNull = False"

text \<open>
  \<open>BadRequestError\<close> and \<open>NotFoundError\<close> are the two error classes the code throws
  itself. The message of a \<open>NotFoundError\<close> is a template literal, a fixed text followed
  by an interpolated value: the error carries the two parts. \<open>Rejected\<close> is a failure
  coming out of a collaborator (the password hashing library, the database driver).
\<close>

datatype error = BadRequestError string | NotFoundError string jsval | Rejected string

section \<open>Numbers in template literals\<close>

text \<open>
  A non-negative integer interpolated into a string is written in decimal, without
  leading zeros.
\<close>

definition digit :: "nat \<Rightarrow> char" where
  "digit n = ''0123456789'' ! n"

function decimal :: "nat \<Rightarrow> string" where
  "decimal n = (if n < 10 then [digit n] else decimal (n div 10) @ [digit (n mod 10)])"
  by pat_completeness auto
termination
proof (relation "measure (\<lambda>n. n)")
  show "wf (measure (\<lambda>n::nat. n))" by simp
next
  fix n :: nat
  assume "\<not> n < 10"
  then have "n div 10 < n" by simp
  then show "(n div 10, n) \<in> measure (\<lambda>n. n)" by simp
qed

declare decimal.simps [simp del]









section \<open>helpers/sql.js\<close>

record partialUpdate =
  setCols :: string
  "values" :: "jsval list"

text \<open>\<open>Array.prototype.join\<close> on an array of strings.\<close>

fun join :: "string \<Rightarrow> string list \<Rightarrow> string" where
  "join sep [] = []"
| "join sep [x] = x"
| "join sep (x # y # ys) = x @ sep @ join sep (y # ys)"

text \<open>
  The translation table is an object literal (both callers pass one), given by the
  properties it owns, each a column name. The read \<open>jsToSql[colName]\<close> follows the
  prototype chain: where the table owns no such property, it finds the member of that
  name that every object literal inherits from \<open>Object.prototype\<close>, if there is one.
  Each of these members is a function or an object, hence truthy, and a template
  literal renders it as the text given here (Node.js).
\<close>

definition Object_prototype :: "string \<rightharpoonup> string" where
  "Object_prototype = map_of
     [(''constructor'', ''function Object() { [native code] }''),
      (''__defineGetter__'', ''function __defineGetter__() { [native code] }''),
      (''__defineSetter__'', ''function __defineSetter__() { [native code] }''),
      (''hasOwnProperty'', ''function hasOwnProperty() { [native code] }''),
      (''__lookupGetter__'', ''function __lookupGetter__() { [native code] }''),
      (''__lookupSetter__'', ''function __lookupSetter__() { [native code] }''),
      (''isPrototypeOf'', ''function isPrototypeOf() { [native code] }''),
      (''propertyIsEnumerable'', ''function propertyIsEnumerable() { [native code] }''),
      (''toString'', ''function toString() { [native code] }''),
      (''valueOf'', ''function valueOf() { [native code] }''),
      (''__proto__'', ''[object Object]''),
      (''toLocaleString'', ''function toLocaleString() { [native code] }'')]"

text \<open>
  The column name \<open>jsToSql[colName] || colName\<close>, as the template literal renders it.
  \<open>a || b\<close> evaluates to \<open>b\<close> when \<open>a\<close> is falsy: \<open>undefined\<close> is, and among strings only
  the empty one.
\<close>

definition columnName :: "(string \<rightharpoonup> string) \<Rightarrow> string \<Rightarrow> string" where
  "columnName jsToSql colName =
     (case jsToSql colName of
        Some s \<Rightarrow> if s \<noteq> [] then s else colName
      | None \<Rightarrow>
          (case Object_prototype colName of
             Some inherited \<Rightarrow> inherited
           | None \<Rightarrow> colName))"

text \<open>The array \<open>cols\<close>: \<open>keys.map((colName, idx) => ...)\<close>.\<close>

definition cols :: "string list \<Rightarrow> (string \<rightharpoonup> string) \<Rightarrow> string list" where
  "cols keys jsToSql =
     map (\<lambda>(idx, colName).
            [CHR 0x22] @ columnName jsToSql colName @ [CHR 0x22] @ ''=$'' @ decimal (idx + 1))
         (enumerate 0 keys)"

definition sqlForPartialUpdate ::
  "object \<Rightarrow> (string \<rightharpoonup> string) \<Rightarrow> error + partialUpdate" where
  "sqlForPartialUpdate dataToUpdate jsToSql =
     (let keys = Object_keys dataToUpdate in
      if length keys = 0 then Inl (BadRequestError ''No data'')
      else Inr \<lparr> setCols = join '', '' (cols keys jsToSql),
                 values = Object_values dataToUpdate \<rparr>)"

section \<open>models/user.js and models/job.js: the partial updates\<close>

text \<open>
  The collaborators of the two models: the password hashing library, the work factor
  from the configuration, and the database driver, which answers a statement and its
  bound values with the rows it returns.
\<close>

record collaborators =
  bcrypt_hash :: "jsval \<Rightarrow> nat \<Rightarrow> error + string"
  BCRYPT_WORK_FACTOR :: nat
  db_query :: "string \<Rightarrow> jsval list \<Rightarrow> error + object list"

definition indent :: "nat \<Rightarrow> string" where
  "indent n = replicate n (CHR '' '')"

text \<open>
  The table of \<open>User.update\<close>, by the properties it owns; \<open>Job.update\<close> passes \<open>{}\<close>, which
  owns none.
\<close>

definition userJsToSql :: "string \<rightharpoonup> string" where
  "userJsToSql = [''firstName'' \<mapsto> ''first_name'',
                  ''lastName'' \<mapsto> ''last_name'',
                  ''isAdmin'' \<mapsto> ''is_admin'']"

definition userQuerySql :: "string \<Rightarrow> string \<Rightarrow> string" where
  "userQuerySql setCols' usernameVarIdx =
     ''UPDATE users \<newline>'' @ indent 22 @
     ''SET '' @ setCols' @ '' \<newline>'' @ indent 22 @
     ''WHERE username = '' @ usernameVarIdx @ '' \<newline>'' @ indent 22 @
     ''RETURNING username,\<newline>'' @ indent 32 @
     ''first_name AS '' @ [CHR 0x22] @ ''firstName'' @ [CHR 0x22] @ '',\<newline>'' @ indent 32 @
     ''last_name AS '' @ [CHR 0x22] @ ''lastName'' @ [CHR 0x22] @ '',\<newline>'' @ indent 32 @
     ''email,\<newline>'' @ indent 32 @
     ''is_admin AS '' @ [CHR 0x22] @ ''isAdmin'' @ [CHR 0x22]"


text \<open>
  The statement and the bound values that \<open>User.update\<close> hands to \<open>db.query\<close>, built
  from the data object as it is after the password step.
\<close>

definition User_update_statement :: "jsval \<Rightarrow> object \<Rightarrow> error + string \<times> jsval list" where
  "User_update_statement username data =
     (case sqlForPartialUpdate data userJsToSql of
        Inl e \<Rightarrow> Inl e
      | Inr r \<Rightarrow>
          (let usernameVarIdx = ''$'' @ decimal (length (values r) + 1);
               querySql = userQuerySql (setCols r) usernameVarIdx
           in Inr (querySql, values r @ [username])))"

text \<open>
  \<open>User.update\<close> from the call of \<open>sqlForPartialUpdate\<close> on: submit the statement, fail
  with \<open>NotFoundError\<close> when no row comes back, else return the row without its password.
\<close>

definition User_update_submit :: "collaborators \<Rightarrow> jsval \<Rightarrow> object \<Rightarrow> error + object" where
  "User_update_submit env username data =
     (case User_update_statement username data of
        Inl e \<Rightarrow> Inl e
      | Inr (querySql, params) \<Rightarrow>
          (case db_query env querySql params of
             Inl e \<Rightarrow> Inl e
           | Inr [] \<Rightarrow> Inl (NotFoundError ''No user: '' username)
           | Inr (user # _) \<Rightarrow> Inr (deleteProp user ''password'')))"

text \<open>
  \<open>User.update\<close>. The function assigns to a property of its argument, so it returns the
  data object as the caller finds it afterwards, next to its result.
\<close>

definition User_update :: "collaborators \<Rightarrow> jsval \<Rightarrow> object \<Rightarrow> (error + object) \<times> object" where
  "User_update env username data =
     (case getProp data ''password'' of
        None \<Rightarrow> (User_update_submit env username data, data)
      | Some pw \<Rightarrow>
          if truthy pw then
            (case bcrypt_hash env pw (BCRYPT_WORK_FACTOR env) of
               Inl e \<Rightarrow> (Inl e, data)
             | Inr h \<Rightarrow>
                 (let data' = setProp data ''password'' (JString h)
                  in (User_update_submit env username data', data')))
          else (User_update_submit env username data, data))"



section \<open>Sample inputs\<close>

text \<open>
  The documented call \<open>sqlForPartialUpdate({firstName: 'Aliya', age: 32},
  {firstName: 'first_name'})\<close>.
\<close>

definition example3_data :: object where
  "example3_data = [(''firstName'', JString ''Aliya''), (''age'', JNumber 32)]"

definition example3_jsToSql :: "string \<rightharpoonup> string" where
  "example3_jsToSql = [''firstName'' \<mapsto> ''first_name'']"

text \<open>The same keys with other values, and an object whose one key holds a double quote.\<close>

definition example3_other_values :: object where
  "example3_other_values = [(''firstName'', JString ''Bo''), (''age'', JNull)]"

definition quoted_key_data :: object where
  "quoted_key_data = [(''a'' @ [CHR 0x22] @ ''b'', JNumber 1)]"




text \<open>
  Collaborators for a sample run of \<open>User.update\<close>: a hashing library that answers with
  a fixed hash, and a database that finds no row. The sample request changes a password.
\<close>

definition example_env :: collaborators where
  "example_env =
     \<lparr> bcrypt_hash = (\<lambda>v rounds. Inr ''$2b$12$hashed''),
       BCRYPT_WORK_FACTOR = 12,
       db_query = (\<lambda>querySql params. Inr []) \<rparr>"

definition example_password_data :: object where
  "example_password_data = [(''firstName'', JString ''Aliya''), (''password'', JString ''secret'')]"

section \<open>Auxiliary facts\<close>

subsection \<open>Decimal numerals\<close>

lemma decimal_small: "n < 10 \<Longrightarrow> decimal n = [digit n]"
  by (subst decimal.simps) simp

lemma decimal_large: "\<not> n < 10 \<Longrightarrow> decimal n = decimal (n div 10) @ [digit (n mod 10)]"
  by (subst decimal.simps) simp













lemma sqlForPartialUpdate_nonempty:
  "Object_keys d \<noteq> [] \<Longrightarrow>
   sqlForPartialUpdate d m =
     Inr \<lparr> setCols = join '', '' (cols (Object_keys d) m), values = Object_values d \<rparr>"
  by (simp add: sqlForPartialUpdate_def Let_def)

lemma sqlForPartialUpdate_empty:
  "Object_keys d = [] \<Longrightarrow> sqlForPartialUpdate d m = Inl (BadRequestError ''No data'')"
  by (simp add: sqlForPartialUpdate_def Let_def)



subsection \<open>Column names\<close>


text \<open>
  The builder reads the table at the keys of the update only: two tables that answer
  alike there give the same result.
\<close>

lemma cols_reads:
  "(\<And>k. k \<in> set keys \<Longrightarrow> m k = m' k) \<Longrightarrow> cols keys m = cols keys m'"
proof -
  assume same: "\<And>k. k \<in> set keys \<Longrightarrow> m k = m' k"
  have "columnName m k = columnName m' k" if "k \<in> set keys" for k
    using same [OF that] by (simp add: columnName_def)
  then show ?thesis
    by (auto simp: cols_def in_set_enumerate_eq)
qed

lemma sqlForPartialUpdate_reads:
  "(\<And>k. k \<in> set (Object_keys d) \<Longrightarrow> m k = m' k) \<Longrightarrow>
   sqlForPartialUpdate d m = sqlForPartialUpdate d m'"
  using cols_reads [of "Object_keys d" m m']
  by (simp add: sqlForPartialUpdate_def Let_def)


subsection \<open>Objects and the statements of the two models\<close>

lemma getProp_setProp: "getProp (setProp obj k v) k' = (if k' = k then Some v else getProp obj k')"
  by (simp add: getProp_def setProp_def update_conv')

lemma keys_setProp:
  "getProp obj k = Some w \<Longrightarrow> Object_keys (setProp obj k v) = Object_keys obj"
proof -
  assume "getProp obj k = Some w"
  then have "k \<in> fst ` set obj"
    unfolding getProp_def by (metis map_of_eq_None_iff option.distinct(1))
  then show ?thesis
    by (simp add: Object_keys_def setProp_def update_keys)
qed

lemma User_update_statement_nonempty:
  "Object_keys data \<noteq> [] \<Longrightarrow>
   User_update_statement username data =
     Inr (userQuerySql (join '', '' (cols (Object_keys data) userJsToSql))
            (''$'' @ decimal (length (Object_values data) + 1)),
          Object_values data @ [username])"
  by (simp add: User_update_statement_def sqlForPartialUpdate_nonempty)



subsection \<open>Joining and splitting\<close>














subsection \<open>Placeholders of a text\<close>











subsection \<open>The statements as texts\<close>









subsection \<open>Evaluation on concrete inputs\<close>

lemmas eval_simps =
  sqlForPartialUpdate_def Object_keys_def Object_values_def cols_def columnName_def
  Object_prototype_def
  enumerate_eq_zip decimal_small decimal_large digit_def Let_def


lemma example3_data_keys: "Object_keys example3_data \<noteq> []"
  by (simp add: example3_data_def Object_keys_def)


lemma example3_same_keys: "Object_keys example3_data = Object_keys example3_other_values"
  by (simp add: example3_data_def example3_other_values_def Object_keys_def)



lemma quoted_key_example:
  "sqlForPartialUpdate quoted_key_data Map.empty
     = Inr \<lparr> setCols = [CHR 0x22] @ ''a'' @ [CHR 0x22] @ ''b'' @ [CHR 0x22] @ ''=$1'',
             values = [JNumber 1] \<rparr>"
  by (simp add: eval_simps quoted_key_data_def)

lemma example_password_present:
  "getProp example_password_data ''password'' = Some (JString ''secret'')"
  by (simp add: example_password_data_def getProp_def)

lemma example_password_truthy: "truthy (JString ''secret'')"
  by simp

lemma example_env_hash:
  "bcrypt_hash example_env (JString ''secret'') (BCRYPT_WORK_FACTOR example_env)
     = Inr ''$2b$12$hashed''"
  by (simp add: example_env_def)

lemma User_update_example:
  "User_update example_env (JString ''aliya'') example_password_data
     = (Inl (NotFoundError ''No user: '' (JString ''aliya'')),
        [(''firstName'', JString ''Aliya''), (''password'', JString ''$2b$12$hashed'')])"
  by (simp add: User_update_def User_update_submit_def User_update_statement_def
        example_env_def example_password_data_def getProp_def setProp_def
        sqlForPartialUpdate_def Object_keys_def Let_def)









section \<open>The fragment builder\<close>




text \<open>
  C2. For an update mapping with zero keys, whatever the translation table, the builder
  fails with the bad-request error "No data" and returns no record.
\<close>

theorem sqlForPartialUpdate_no_data:
  "length (Object_keys d) = 0 \<Longrightarrow> sqlForPartialUpdate d m = Inl (BadRequestError ''No data'')"
  by (simp add: sqlForPartialUpdate_def)

theorem sqlForPartialUpdate_no_data_witness:
  "length (Object_keys []) = 0
   \<and> sqlForPartialUpdate [] [''firstName'' \<mapsto> ''first_name''] = Inl (BadRequestError ''No data'')"
  using sqlForPartialUpdate_no_data [of "[]" "[''firstName'' \<mapsto> ''first_name'']"]
  by (simp add: Object_keys_def)

text \<open>
  C4. The documented examples: one field; two fields, one of them translated; the
  call of the doc comment, with a string and a number; and the empty call, which fails.
\<close>

theorem sqlForPartialUpdate_examples:
  "sqlForPartialUpdate [(''f1'', JString ''v1'')] [''f1'' \<mapsto> ''f1'', ''fF2'' \<mapsto> ''f2'']
     = Inr \<lparr> setCols = [CHR 0x22] @ ''f1'' @ [CHR 0x22] @ ''=$1'',
             values = [JString ''v1''] \<rparr>
   \<and> sqlForPartialUpdate [(''f1'', JString ''v1''), (''jsF2'', JString ''v2'')]
         [''jsF2'' \<mapsto> ''f2'']
     = Inr \<lparr> setCols = [CHR 0x22] @ ''f1'' @ [CHR 0x22] @ ''=$1, ''
                         @ [CHR 0x22] @ ''f2'' @ [CHR 0x22] @ ''=$2'',
             values = [JString ''v1'', JString ''v2''] \<rparr>
   \<and> sqlForPartialUpdate example3_data example3_jsToSql
     = Inr \<lparr> setCols = [CHR 0x22] @ ''first_name'' @ [CHR 0x22] @ ''=$1, ''
                         @ [CHR 0x22] @ ''age'' @ [CHR 0x22] @ ''=$2'',
             values = [JString ''Aliya'', JNumber 32] \<rparr>
   \<and> sqlForPartialUpdate [] Map.empty = Inl (BadRequestError ''No data'')"
  by (intro conjI) (simp_all add: eval_simps example3_data_def example3_jsToSql_def)




text \<open>
  C5. The fragment does not depend on the values: two non-empty update mappings with
  the same keys in the same order, and the same table, give the same \<open>setCols\<close>.
\<close>

theorem setCols_independent_of_values:
  assumes "Object_keys d = Object_keys d'" and "Object_keys d \<noteq> []"
  shows "\<exists>r r'. sqlForPartialUpdate d m = Inr r \<and> sqlForPartialUpdate d' m = Inr r'
            \<and> setCols r = setCols r'"
proof -
  from assms have "Object_keys d' \<noteq> []" by simp
  then show ?thesis
    using assms by (simp add: sqlForPartialUpdate_nonempty)
qed

theorem setCols_independent_of_values_witness:
  "Object_keys example3_data = Object_keys example3_other_values
   \<and> Object_keys example3_data \<noteq> []
   \<and> (\<exists>r r'. sqlForPartialUpdate example3_data example3_jsToSql = Inr r
            \<and> sqlForPartialUpdate example3_other_values example3_jsToSql = Inr r'
            \<and> setCols r = setCols r')"
  using example3_same_keys example3_data_keys
    setCols_independent_of_values [OF example3_same_keys example3_data_keys, of example3_jsToSql]
  by (intro conjI)



section \<open>The callers\<close>




text \<open>
  C10. \<open>User.update\<close> changes its \<open>data\<close> argument: when \<open>data\<close> has a truthy password
  and the hashing succeeds, the password property holds the hash afterwards (and so
  not the plaintext, the two being different), every other property and the order of
  the keys are as before, and the statement is built from the object as changed.
\<close>

theorem User_update_overwrites_password:
  assumes "getProp data ''password'' = Some pw"
    and "truthy pw"
    and "bcrypt_hash env pw (BCRYPT_WORK_FACTOR env) = Inr h"
  shows "User_update env username data
           = (User_update_submit env username (setProp data ''password'' (JString h)),
              setProp data ''password'' (JString h))
         \<and> getProp (snd (User_update env username data)) ''password'' = Some (JString h)
         \<and> (\<forall>k. k \<noteq> ''password'' \<longrightarrow>
               getProp (snd (User_update env username data)) k = getProp data k)
         \<and> Object_keys (snd (User_update env username data)) = Object_keys data
         \<and> map_sum id snd (User_update_statement username (snd (User_update env username data)))
             = Inr (Object_values (snd (User_update env username data)) @ [username])
         \<and> (JString h \<noteq> pw \<longrightarrow>
               getProp (snd (User_update env username data)) ''password'' \<noteq> Some pw)"
proof -
  have run: "User_update env username data
           = (User_update_submit env username (setProp data ''password'' (JString h)),
              setProp data ''password'' (JString h))"
    using assms by (simp add: User_update_def Let_def)
  have keys: "Object_keys (setProp data ''password'' (JString h)) = Object_keys data"
    using assms(1) by (rule keys_setProp)
  from assms(1) have "Object_keys data \<noteq> []"
    by (auto simp: getProp_def Object_keys_def)
  with keys have "Object_keys (setProp data ''password'' (JString h)) \<noteq> []" by simp
  then have "map_sum id snd (User_update_statement username (setProp data ''password'' (JString h)))
      = Inr (Object_values (setProp data ''password'' (JString h)) @ [username])"
    by (simp add: User_update_statement_nonempty)
  with keys show ?thesis
    unfolding run by (simp add: getProp_setProp)
qed

theorem User_update_overwrites_password_witness:
  "getProp example_password_data ''password'' = Some (JString ''secret'')
   \<and> truthy (JString ''secret'')
   \<and> bcrypt_hash example_env (JString ''secret'') (BCRYPT_WORK_FACTOR example_env)
       = Inr ''$2b$12$hashed''
   \<and> getProp (snd (User_update example_env (JString ''aliya'') example_password_data))
         ''password'' = Some (JString ''$2b$12$hashed'')
   \<and> getProp (snd (User_update example_env (JString ''aliya'') example_password_data))
         ''firstName'' = getProp example_password_data ''firstName''
   \<and> Object_keys (snd (User_update example_env (JString ''aliya'') example_password_data))
       = Object_keys example_password_data
   \<and> getProp (snd (User_update example_env (JString ''aliya'') example_password_data))
         ''password'' \<noteq> Some (JString ''secret'')"
proof -
  have other: "''firstName'' \<noteq> ''password''"
    by simp
  have differs: "JString ''$2b$12$hashed'' \<noteq> JString ''secret''"
    by simp
  note main = User_update_overwrites_password
      [OF example_password_present example_password_truthy example_env_hash,
       of "JString ''aliya''"]
  note hashed = main [THEN conjunct2, THEN conjunct1]
  note frame = main [THEN conjunct2, THEN conjunct2, THEN conjunct1, rule_format, OF other]
  note keys = main [THEN conjunct2, THEN conjunct2, THEN conjunct2, THEN conjunct1]
  note plain = main [THEN conjunct2, THEN conjunct2, THEN conjunct2, THEN conjunct2,
      THEN conjunct2, rule_format, OF differs]
  from example_password_present example_password_truthy example_env_hash
    hashed frame keys plain
  show ?thesis
    by (intro conjI)
qed

end
